theory Spec2Isabelle
  imports Complex_Main
begin

section \<open>Exceptions\<close>

text \<open>
  Every \<open>raise\<close> of the handlers and every exception they can meet is a value, and a
  computation that may raise has a result of type \<open>error + 'a\<close>.
\<close>

datatype error =
    HTTPException int string
  | ValidationError
  | StoreError
  | NotImplementedError
  | ZeroDivisionError
  | OverflowError
  | RequestException
  | JSONDecodeError
  | AttributeError
  | TypeError

text \<open>Sequencing of steps that may raise: the first exception ends the computation.\<close>

definition and_then :: "error + 'a \<Rightarrow> ('a \<Rightarrow> error + 'b) \<Rightarrow> error + 'b" where
  "and_then x f = (case x of Inl e \<Rightarrow> Inl e | Inr v \<Rightarrow> f v)"

section \<open>Python floats\<close>

text \<open>
  A Python float is a finite number, an infinity or a NaN. The finite doubles are among
  the reals, and comparing a float with a constant is exact: a NaN is below nothing.

  The arithmetic on doubles is not modelled. The three operations the diet plan uses are
  parameters of the handler: the division \<open>x / y\<close>, the power \<open>x ** y\<close> and \<open>round(x, n)\<close>,
  each with the double it returns or the exception it raises (\<open>ZeroDivisionError\<close> for a
  zero divisor, \<open>OverflowError\<close> for a power out of range). Whatever is proved of the
  handler holds for every such arithmetic, so for that of the Python runtime.
\<close>

datatype pyfloat = Finite real | PosInf | NegInf | NaN

fun float_less :: "pyfloat \<Rightarrow> real \<Rightarrow> bool" where
  "float_less (Finite x) c = (x < c)"
| "float_less NegInf c = True"
| "float_less PosInf c = False"
| "float_less NaN c = False"

fun float_greater :: "pyfloat \<Rightarrow> real \<Rightarrow> bool" where
  "float_greater (Finite x) c = (c < x)"
| "float_greater PosInf c = True"
| "float_greater NegInf c = False"
| "float_greater NaN c = False"

record float_arith =
  fdiv :: "pyfloat \<Rightarrow> pyfloat \<Rightarrow> error + pyfloat"
  fpow :: "pyfloat \<Rightarrow> pyfloat \<Rightarrow> error + pyfloat"
  fround :: "pyfloat \<Rightarrow> int \<Rightarrow> error + pyfloat"

section \<open>Data model (schemas.py)\<close>

text \<open>
  Python strings are modelled as \<^typ>\<open>string\<close>, optional fields as \<^typ>\<open>'a option\<close>.
  The two \<open>Literal[...]\<close> fields of \<open>DietRequest\<close> are strings at run time and are kept as
  strings here; the values pydantic admits are listed in \<open>food_types\<close> and \<open>goals\<close>.
\<close>

record DietRequest =
  name :: string
  age :: int
  height_cm :: pyfloat
  weight_kg :: pyfloat
  health_issues :: "string option"
  medical_history :: "string option"
  food_type :: string
  goal :: string
  extra_notes :: "string option"

definition food_types :: "string list" where
  "food_types = [''veg'', ''non-veg'', ''vegan'', ''lactose-intolerant'',
                 ''gluten-free'', ''keto'', ''paleo'', ''other'']"

definition goals :: "string list" where
  "goals = [''lose-weight'', ''gain-weight'', ''maintain'', ''post-surgery-guidance'',
            ''improve-performance'', ''other'']"

text \<open>The constraints pydantic checks before the handler runs (schemas.py, lines 22-31).\<close>

definition valid_DietRequest :: "DietRequest \<Rightarrow> bool" where
  "valid_DietRequest info \<longleftrightarrow>
     1 \<le> age info \<and> age info \<le> 120 \<and>
     float_greater (height_cm info) 0 \<and> float_greater (weight_kg info) 0 \<and>
     food_type info \<in> set food_types \<and> goal info \<in> set goals"

section \<open>Diet plan generator (main.py, lines 52-123)\<close>

record meal_entry =
  meal :: string
  ideas :: "string list"

record DietPlan =
  bmi :: pyfloat
  bmi_category :: string
  guidelines :: "string list"
  sample_day :: "meal_entry list"

text \<open>Lines 56-61: the conditional expression that names the category.\<close>

definition category_of :: "pyfloat \<Rightarrow> string" where
  "category_of b =
     (if float_less b 18.5 then ''underweight''
      else if float_less b 25 then ''normal''
      else if float_less b 30 then ''overweight''
      else ''obese'')"

text \<open>
  The handler. Line 55 comes first: \<open>m\<close> is \<open>height_cm/100\<close>, \<open>sq\<close> is its square and \<open>b\<close> is
  the quotient \<open>bmi\<close>; an exception of one of the three operations ends the handler
  before any guideline or meal is built. The list \<open>guidelines\<close> is built by the same
  sequence of appends as in the source (lines 63-89): each \<open>g\<^sub>i\<close> is the list after the
  i-th statement. \<open>round(bmi, 1)\<close> is evaluated last, in the dict that is returned (line
  119).
\<close>

definition generate_diet_plan :: "float_arith \<Rightarrow> DietRequest \<Rightarrow> error + DietPlan" where
  "generate_diet_plan fl info =
    and_then (fdiv fl (height_cm info) (Finite 100)) (\<lambda>m.
    and_then (fpow fl m (Finite 2)) (\<lambda>sq.
    and_then (fdiv fl (weight_kg info) sq) (\<lambda>b.
    (let category = category_of b;
         g0 = [];
         g1 = (if food_type info \<in> set [''veg'', ''vegan'']
               then g0 @ [''Prioritize legumes, tofu, nuts, seeds for protein.''] else g0);
         g2 = (if food_type info = ''non-veg''
               then g1 @ [''Lean proteins like chicken, fish, eggs; minimize fried foods.'']
               else g1);
         g3 = (if food_type info = ''lactose-intolerant''
               then g2 @ [''Use lactose-free dairy or fortified plant milks.''] else g2);
         g4 = (if goal info = ''lose-weight'' then
                 g3 @ [''Aim for a 300-500 kcal deficit.'',
                       ''High-volume, low-calorie foods (salads, soups).'',
                       ''30-40 minutes of brisk walking or cardio, 5x/week.'']
               else if goal info = ''gain-weight'' then
                 g3 @ [''300-400 kcal surplus with 1.6-2.2 g/kg protein.'',
                       ''Strength training 3-4x/week.'',
                       ''Add calorie-dense snacks (nut butters, trail mix).'']
               else if goal info = ''post-surgery-guidance'' then
                 g3 @ [''Focus on soft, easily digestible foods as advised.'',
                       ''Ensure adequate protein and vitamin C for healing.'',
                       ''Hydrate well and follow medical guidance.'']
               else
                 g3 @ [''Balanced plate: half veggies, quarter protein, quarter whole grains.'']);
         day_plan =
           [\<lparr>meal = ''Breakfast'',
             ideas = [''Oatmeal with chia and berries'',
                      (if food_type info \<noteq> ''vegan'' then ''Veggie omelette''
                       else ''Tofu scramble''),
                      ''Smoothie with spinach, banana, and plant milk'']\<rparr>,
            \<lparr>meal = ''Lunch'',
             ideas = [''Quinoa bowl with beans and veggies'',
                      (if food_type info = ''non-veg'' then ''Grilled chicken salad''
                       else ''Chickpea salad''),
                      ''Lentil soup with whole-grain toast'']\<rparr>,
            \<lparr>meal = ''Dinner'',
             ideas = [''Stir-fry veggies with tofu/tempeh'',
                      (if food_type info = ''non-veg'' then ''Baked fish with steamed veggies''
                       else ''Rajma with brown rice''),
                      ''Vegetable khichdi or millet upma'']\<rparr>]
     in and_then (fround fl b 1) (\<lambda>rounded.
          Inr \<lparr>bmi = rounded, bmi_category = category, guidelines = g4,
               sample_day = day_plan\<rparr>)))))"

section \<open>Values, documents and the document store\<close>

text \<open>
  Values exchanged with the store and with the recipe service are the Python objects a JSON
  parser yields: \<open>None\<close>, booleans, numbers, strings, lists and dicts. A dict is an
  association list read with \<open>map_of\<close> (the first binding of a key is the one that counts).
\<close>

datatype json = JNull | JBool bool | JNum rat | JStr string | JArr "json list"
  | JObj "(string \<times> json) list"

type_synonym document = "(string \<times> json) list"

text \<open>Python's \<open>d.get(k)\<close>: the value, or \<open>None\<close> when the key is missing.\<close>

definition dict_get :: "document \<Rightarrow> string \<Rightarrow> json" where
  "dict_get d k = (case map_of d k of None \<Rightarrow> JNull | Some v \<Rightarrow> v)"

text \<open>Python's truth value of an object, as used by \<open>if x\<close>, \<open>not x\<close> and \<open>x or y\<close>.\<close>

fun truthy :: "json \<Rightarrow> bool" where
  "truthy JNull = False"
| "truthy (JBool b) = b"
| "truthy (JNum n) = (n \<noteq> 0)"
| "truthy (JStr s) = (s \<noteq> [])"
| "truthy (JArr xs) = (xs \<noteq> [])"
| "truthy (JObj d) = (d \<noteq> [])"

text \<open>
  The store handle \<open>db\<close> of module \<open>database\<close> is either \<open>None\<close> (not configured) or a
  database: a family of collections, each the list of its documents in insertion order.
  The handlers use it as a pymongo database (\<open>db["user"].find\<close>, \<open>find_one\<close>,
  \<open>list_collection_names\<close>). \<open>find\<close> and \<open>find_one\<close> follow the store contract of the
  specification (section 6): a filter is a document, and a stored document matches when
  it binds every key of the filter to exactly the filter's value.
\<close>

type_synonym database = "string \<Rightarrow> document list"

definition matches :: "document \<Rightarrow> document \<Rightarrow> bool" where
  "matches flt doc \<longleftrightarrow> list_all (\<lambda>(k, v). map_of doc k = Some v) flt"

definition find_documents :: "document list \<Rightarrow> document \<Rightarrow> document list" where
  "find_documents coll flt = filter (matches flt) coll"

definition find_one :: "document list \<Rightarrow> document \<Rightarrow> document option" where
  "find_one coll flt = List.find (matches flt) coll"

text \<open>
  The truth value of the handle, as \<open>if db\<close> takes it: \<open>None\<close> is false; a pymongo database
  does not implement truth value testing, its \<open>__bool__\<close> raises \<open>NotImplementedError\<close>
  ("compare with None instead").
\<close>

definition db_truth_value :: "database option \<Rightarrow> error + bool" where
  "db_truth_value db = (case db of None \<Rightarrow> Inr False | Some d \<Rightarrow> Inl NotImplementedError)"

text \<open>
  Modelled from the spec: \<open>create_document\<close> is defined in \<open>database.py\<close>, which is not among
  the sources. Section 6 gives its contract, \<open>insert(collection_name, record) -> id\<close>, and
  section 4.1 its use: it persists the record and returns a generated identifier. The
  identifier is whatever the store generates, the parameter \<open>gen\<close>. Without a configured
  store there is nothing to insert into and the call fails (section 7: store not
  configured).
\<close>

definition create_document ::
  "(database \<Rightarrow> string) \<Rightarrow> string \<Rightarrow> document \<Rightarrow> database option
     \<Rightarrow> (error + string) \<times> database option" where
  "create_document gen collection_name doc db =
     (case db of
        None \<Rightarrow> (Inl StoreError, None)
      | Some d \<Rightarrow> (Inr (gen d), Some (d(collection_name := d collection_name @ [doc]))))"

section \<open>Accounts (main.py, lines 26-49)\<close>

record AuthPayload =
  name :: "string option"
  email :: string
  password :: string

record User =
  name :: string
  email :: string
  password :: string

text \<open>
  Constructing a \<open>User\<close> validates it (schemas.py, lines 17-20): the password has at least
  four characters. The e-mail address comes from an \<open>AuthPayload\<close> that passed the same
  \<open>EmailStr\<close> check, and any string is a name.
\<close>

definition mk_User :: "string \<Rightarrow> string \<Rightarrow> string \<Rightarrow> error + User" where
  "mk_User n e p =
     (if length p < 4 then Inl ValidationError
      else Inr \<lparr>User.name = n, User.email = e, User.password = p\<rparr>)"

definition User_document :: "User \<Rightarrow> document" where
  "User_document u =
     [(''name'', JStr (User.name u)), (''email'', JStr (User.email u)),
      (''password'', JStr (User.password u))]"

text \<open>\<open>payload.name or payload.email.split("@")[0]\<close>\<close>

definition name_or_local_part :: "AuthPayload \<Rightarrow> string" where
  "name_or_local_part payload =
     (case AuthPayload.name payload of
        Some n \<Rightarrow> if n \<noteq> [] then n
                  else takeWhile (\<lambda>c. c \<noteq> CHR ''@'') (AuthPayload.email payload)
      | None \<Rightarrow> takeWhile (\<lambda>c. c \<noteq> CHR ''@'') (AuthPayload.email payload))"

record signup_response =
  ok :: bool
  user_id :: string

text \<open>
  Each handler takes the store handle and returns its outcome together with the handle
  afterwards. Line 35 of signup tests the truth value of \<open>db\<close>, where line 44 of login and
  lines 162 and 166 compare it with \<open>None\<close>.
\<close>

definition signup ::
  "(database \<Rightarrow> string) \<Rightarrow> database option \<Rightarrow> AuthPayload
     \<Rightarrow> (error + signup_response) \<times> database option" where
  "signup gen db payload =
     (case db_truth_value db of
        Inl e \<Rightarrow> (Inl e, db)
      | Inr configured \<Rightarrow>
          (let existing =
                 (if configured
                  then (case db of
                          Some d \<Rightarrow> find_documents (d ''user'')
                                      [(''email'', JStr (AuthPayload.email payload))]
                        | None \<Rightarrow> [])
                  else [])
           in if existing \<noteq> [] then (Inl (HTTPException 400 ''User already exists''), db)
              else
                (case mk_User (name_or_local_part payload) (AuthPayload.email payload)
                        (AuthPayload.password payload) of
                   Inl e \<Rightarrow> (Inl e, db)
                 | Inr user \<Rightarrow>
                     (case create_document gen ''user'' (User_document user) db of
                        (Inl e, db') \<Rightarrow> (Inl e, db')
                      | (Inr uid, db') \<Rightarrow> (Inr \<lparr>ok = True, user_id = uid\<rparr>, db')))))"

definition login ::
  "database option \<Rightarrow> AuthPayload \<Rightarrow> (error + document) \<times> database option" where
  "login db payload =
     (case db of
        None \<Rightarrow> (Inl (HTTPException 500 ''Database not configured''), db)
      | Some d \<Rightarrow>
          (case find_one (d ''user'')
                  [(''email'', JStr (AuthPayload.email payload)),
                   (''password'', JStr (AuthPayload.password payload))] of
             None \<Rightarrow> (Inl (HTTPException 401 ''Invalid credentials''), db)
           | Some user \<Rightarrow>
               if user = [] then (Inl (HTTPException 401 ''Invalid credentials''), db)
               else (Inr [(''ok'', JBool True), (''email'', dict_get user ''email''),
                          (''name'', dict_get user ''name'')], db)))"

section \<open>Recipe search (main.py, lines 125-156)\<close>

record RecipeSearch =
  query :: "string option"
  ingredients :: "string list option"
  food_type :: "string option"
  user_email :: "string option"

text \<open>The truth value of an optional string and of an optional list.\<close>

definition is_truthy :: "'a list option \<Rightarrow> bool" where
  "is_truthy x = (case x of None \<Rightarrow> False | Some v \<Rightarrow> v \<noteq> [])"

text \<open>\<open>sep.join(xs)\<close>\<close>

fun join :: "string \<Rightarrow> string list \<Rightarrow> string" where
  "join sep [] = []"
| "join sep [x] = x"
| "join sep (x # y # ys) = x @ sep @ join sep (y # ys)"

text \<open>
  The recipe service is a function from a request (URL and query parameters) to what
  \<open>requests.get\<close> does with it: it raises (no connection, timeout after 10 seconds), or it
  returns a response with a status code and a body. \<open>requests.get\<close> returns a response
  whatever the status code is. The body is \<open>None\<close> when it is not JSON, in which case
  \<open>r.json()\<close> raises, and the parsed value otherwise.
\<close>

type_synonym http_call = "string \<times> (string \<times> string) list"

datatype http_reply = Raises | Response int "json option"

type_synonym recipe_service = "http_call \<Rightarrow> http_reply"

definition search_url :: string where
  "search_url = ''https://www.themealdb.com/api/json/v1/1/search.php''"

definition filter_url :: string where
  "filter_url = ''https://www.themealdb.com/api/json/v1/1/filter.php''"

text \<open>\<open>r = requests.get(url, params=..., timeout=10); data = r.json()\<close>\<close>

definition get_json :: "recipe_service \<Rightarrow> http_call \<Rightarrow> error + json" where
  "get_json service c =
     (case service c of
        Raises \<Rightarrow> Inl RequestException
      | Response status None \<Rightarrow> Inl JSONDecodeError
      | Response status (Some data) \<Rightarrow> Inr data)"

text \<open>\<open>meals = data.get("meals") or []\<close>: only a dict has \<open>get\<close>.\<close>

fun meals_of :: "json \<Rightarrow> error + json" where
  "meals_of (JObj d) =
     (let v = dict_get d ''meals'' in Inr (if truthy v then v else JArr []))"
| "meals_of _ = Inl AttributeError"

text \<open>
  What the loop \<open>for m in meals[:12]\<close> runs over: the first twelve elements of a list, the
  first twelve characters of a string; any other value cannot be sliced.
\<close>

fun slice12 :: "json \<Rightarrow> error + json list" where
  "slice12 (JArr xs) = Inr (take 12 xs)"
| "slice12 (JStr s) = Inr (map (\<lambda>c. JStr [c]) (take 12 s))"
| "slice12 _ = Inl TypeError"

text \<open>The loop body, lines 142-148: only a dict has \<open>get\<close>.\<close>

fun summary :: "json \<Rightarrow> error + json" where
  "summary (JObj m) =
     Inr (JObj [(''id'', dict_get m ''idMeal''),
                (''title'', dict_get m ''strMeal''),
                (''thumbnail'', dict_get m ''strMealThumb''),
                (''category'', dict_get m ''strCategory''),
                (''area'', dict_get m ''strArea'')])"
| "summary _ = Inl AttributeError"

text \<open>The loop, with \<open>results\<close> as the accumulator; it stops at the first exception.\<close>

fun append_summaries :: "json list \<Rightarrow> json list \<Rightarrow> error + json list" where
  "append_summaries [] results = Inr results"
| "append_summaries (m # ms) results =
     (case summary m of
        Inl e \<Rightarrow> Inl e
      | Inr r \<Rightarrow> append_summaries ms (results @ [r]))"

definition RecipeSearch_document :: "RecipeSearch \<Rightarrow> document" where
  "RecipeSearch_document payload =
     [(''query'', case query payload of None \<Rightarrow> JNull | Some q \<Rightarrow> JStr q),
      (''ingredients'',
         case ingredients payload of None \<Rightarrow> JNull | Some xs \<Rightarrow> JArr (map JStr xs)),
      (''food_type'', case RecipeSearch.food_type payload of None \<Rightarrow> JNull | Some f \<Rightarrow> JStr f),
      (''user_email'', case user_email payload of None \<Rightarrow> JNull | Some e \<Rightarrow> JStr e)]"

record search_response =
  results :: "json list"

record search_outcome =
  response :: "error + search_response"
  calls :: "http_call list"
  db_after :: "database option"

text \<open>
  Lines 130-139, the \<open>if\<close>/\<open>elif\<close>/\<open>else\<close> that binds \<open>meals\<close>: the value bound, or the
  exception raised on the way, together with the requests sent to the recipe service.
\<close>

definition requested_meals ::
  "recipe_service \<Rightarrow> RecipeSearch \<Rightarrow> (error + json) \<times> http_call list" where
  "requested_meals service payload =
     (if is_truthy (query payload) then
        (let c = (search_url, [(''s'', case query payload of Some q \<Rightarrow> q | None \<Rightarrow> [])])
         in (and_then (get_json service c) meals_of, [c]))
      else if is_truthy (ingredients payload) then
        (let c = (filter_url,
                  [(''i'', join '','' (case ingredients payload of Some xs \<Rightarrow> xs
                                       | None \<Rightarrow> []))])
         in (and_then (get_json service c) meals_of, [c]))
      else (Inr (JArr []), []))"

text \<open>
  Lines 128-150, the \<open>try\<close> statement: the value of \<open>results\<close> after it, and the requests
  sent. The \<open>except\<close> clause replaces any exception by the empty list.
\<close>

definition try_results :: "recipe_service \<Rightarrow> RecipeSearch \<Rightarrow> json list \<times> http_call list" where
  "try_results service payload =
     (let (meals, sent) = requested_meals service payload;
          tried = and_then (and_then meals slice12) (\<lambda>ms. append_summaries ms [])
      in (case tried of Inl e \<Rightarrow> [] | Inr rs \<Rightarrow> rs, sent))"

text \<open>
  The handler. The search is recorded when \<open>user_email\<close> is present (lines 153-154), after
  and outside the \<open>try\<close> statement.
\<close>

definition recipe_search ::
  "(database \<Rightarrow> string) \<Rightarrow> recipe_service \<Rightarrow> database option \<Rightarrow> RecipeSearch
     \<Rightarrow> search_outcome" where
  "recipe_search gen service db payload =
     (let (res, sent) = try_results service payload
      in if is_truthy (user_email payload) then
           (case create_document gen ''recipesearch'' (RecipeSearch_document payload) db of
              (Inl e, db') \<Rightarrow> \<lparr>response = Inl e, calls = sent, db_after = db'\<rparr>
            | (Inr rid, db') \<Rightarrow>
                \<lparr>response = Inr \<lparr>results = res\<rparr>, calls = sent, db_after = db'\<rparr>)
         else \<lparr>response = Inr \<lparr>results = res\<rparr>, calls = sent, db_after = db\<rparr>)"

section \<open>The guideline assembly as the specification words it\<close>

text \<open>
  Section 4.2 of the specification describes the guidelines as the food-type lines (steps
  1 to 3) followed by one goal branch (step 4). These two functions follow that wording;
  they are compared with the handler below.
\<close>

definition spec_food_type_lines :: "string \<Rightarrow> string list" where
  "spec_food_type_lines ft =
     (if ft = ''veg'' \<or> ft = ''vegan''
      then [''Prioritize legumes, tofu, nuts, seeds for protein.''] else []) @
     (if ft = ''non-veg''
      then [''Lean proteins like chicken, fish, eggs; minimize fried foods.''] else []) @
     (if ft = ''lactose-intolerant''
      then [''Use lactose-free dairy or fortified plant milks.''] else [])"

definition spec_goal_branch :: "string \<Rightarrow> string list" where
  "spec_goal_branch g =
     (if g = ''lose-weight'' then
        [''Aim for a 300-500 kcal deficit.'',
         ''High-volume, low-calorie foods (salads, soups).'',
         ''30-40 minutes of brisk walking or cardio, 5x/week.'']
      else if g = ''gain-weight'' then
        [''300-400 kcal surplus with 1.6-2.2 g/kg protein.'',
         ''Strength training 3-4x/week.'',
         ''Add calorie-dense snacks (nut butters, trail mix).'']
      else if g = ''post-surgery-guidance'' then
        [''Focus on soft, easily digestible foods as advised.'',
         ''Ensure adequate protein and vitamin C for healing.'',
         ''Hydrate well and follow medical guidance.'']
      else [''Balanced plate: half veggies, quarter protein, quarter whole grains.''])"

section \<open>Example inputs\<close>

text \<open>Concrete requests, a store with one account and recipe-service replies.\<close>

text \<open>
  An arithmetic for the examples: exact on finite numbers, raising as Python does on a
  zero divisor. On the numbers of the example request (height 200, weight 80: the
  quotients 2 and 20, the square 4, and 20 rounded to one decimal) doubles give the same
  values.
\<close>

fun exact_div :: "pyfloat \<Rightarrow> pyfloat \<Rightarrow> error + pyfloat" where
  "exact_div (Finite x) (Finite y) =
     (if y = 0 then Inl ZeroDivisionError else Inr (Finite (x / y)))"
| "exact_div x y = Inr NaN"

fun exact_pow :: "pyfloat \<Rightarrow> pyfloat \<Rightarrow> error + pyfloat" where
  "exact_pow (Finite x) (Finite y) = (if y = 2 then Inr (Finite (x * x)) else Inr NaN)"
| "exact_pow x y = Inr NaN"

definition round_half_even :: "real \<Rightarrow> real" where
  "round_half_even x =
     (let y = x * 10; f = \<lfloor>y\<rfloor>; r = y - of_int f
      in of_int (if r < 1 / 2 then f else if 1 / 2 < r then f + 1
                 else if even f then f else f + 1) / 10)"

fun exact_round :: "pyfloat \<Rightarrow> int \<Rightarrow> error + pyfloat" where
  "exact_round (Finite x) n = (if n = 1 then Inr (Finite (round_half_even x)) else Inr NaN)"
| "exact_round x n = Inr x"

definition exact_arith :: float_arith where
  "exact_arith = \<lparr>fdiv = exact_div, fpow = exact_pow, fround = exact_round\<rparr>"

definition diet_request :: "string \<Rightarrow> string \<Rightarrow> DietRequest" where
  "diet_request ft g =
     \<lparr>DietRequest.name = ''Ada'', age = 36, height_cm = Finite 200, weight_kg = Finite 80,
      health_issues = None, medical_history = None, DietRequest.food_type = ft, goal = g,
      extra_notes = None\<rparr>"

definition one_user :: database where
  "one_user =
     (\<lambda>c. if c = ''user''
          then [[(''name'', JStr ''ada''), (''email'', JStr ''ada@example.org''),
                 (''password'', JStr ''lovelace'')]]
          else [])"

definition credentials :: "string \<Rightarrow> string \<Rightarrow> AuthPayload" where
  "credentials e p = \<lparr>AuthPayload.name = None, AuthPayload.email = e, AuthPayload.password = p\<rparr>"

definition fixed_id :: "database \<Rightarrow> string" where
  "fixed_id d = ''id-1''"

definition search_for :: "string option \<Rightarrow> string list option \<Rightarrow> RecipeSearch" where
  "search_for q xs =
     \<lparr>query = q, ingredients = xs, food_type = Some ''any'', user_email = None\<rparr>"

definition one_meal :: json where
  "one_meal = JObj [(''meals'', JArr [JObj [(''idMeal'', JStr ''52772''),
                                            (''strMeal'', JStr ''Teriyaki Chicken''),
                                            (''strTags'', JStr ''Meat'')]])]"

section \<open>Properties of the diet plan generator\<close>

subsection \<open>When the handler returns\<close>

text \<open>
  The handler returns a plan exactly when the three operations of line 55 and the
  rounding of line 119 return; otherwise it ends in the exception of the first of them
  that raises.
\<close>

lemma generate_diet_plan_returns_iff:
  "(\<exists>plan. generate_diet_plan fl info = Inr plan) \<longleftrightarrow>
   (\<exists>m sq b r. fdiv fl (height_cm info) (Finite 100) = Inr m \<and> fpow fl m (Finite 2) = Inr sq
       \<and> fdiv fl (weight_kg info) sq = Inr b \<and> fround fl b 1 = Inr r)"
  by (auto simp add: generate_diet_plan_def and_then_def Let_def split: sum.splits)

lemma generate_diet_plan_raises:
  "fdiv fl (height_cm info) (Finite 100) = Inr m \<Longrightarrow> fpow fl m (Finite 2) = Inr sq \<Longrightarrow>
   fdiv fl (weight_kg info) sq = Inl e \<Longrightarrow> generate_diet_plan fl info = Inl e"
  by (simp add: generate_diet_plan_def and_then_def)

lemma example_request_returns:
  "\<exists>plan. generate_diet_plan exact_arith (diet_request ft g) = Inr plan"
  by (simp add: generate_diet_plan_returns_iff exact_arith_def diet_request_def)

lemma valid_diet_request:
  "ft \<in> set food_types \<Longrightarrow> g \<in> set goals \<Longrightarrow> valid_DietRequest (diet_request ft g)"
  by (simp add: diet_request_def valid_DietRequest_def)

subsection \<open>The category thresholds\<close>

text \<open>
  The comparisons of lines 56-61 on the value they are given: the lower bound of each band
  belongs to the band.
\<close>

lemma category_of_bands:
  "category_of (Finite b) =
     (if b < 18.5 then ''underweight'' else if b < 25 then ''normal''
      else if b < 30 then ''overweight'' else ''obese'')"
  by (simp add: category_of_def)

lemma category_of_boundaries:
  "category_of (Finite 18.5) = ''normal''" "category_of (Finite 25) = ''overweight''"
  "category_of (Finite 30) = ''obese''"
  by (simp_all add: category_of_def)

lemma bmi_category_generate_diet_plan:
  "generate_diet_plan fl info = Inr plan \<Longrightarrow>
   \<exists>m sq b. fdiv fl (height_cm info) (Finite 100) = Inr m \<and> fpow fl m (Finite 2) = Inr sq
      \<and> fdiv fl (weight_kg info) sq = Inr b \<and> bmi_category plan = category_of b
      \<and> fround fl b 1 = Inr (bmi plan)"
  by (auto simp add: generate_diet_plan_def and_then_def Let_def split: sum.splits)

subsection \<open>Guidelines\<close>

lemma guidelines_split:
  "generate_diet_plan fl info = Inr plan \<Longrightarrow>
   guidelines plan =
     spec_food_type_lines (DietRequest.food_type info) @ spec_goal_branch (goal info)"
  by (auto simp add: generate_diet_plan_def and_then_def spec_food_type_lines_def
        spec_goal_branch_def Let_def split: sum.splits)

lemma sample_day_returned:
  "generate_diet_plan fl info = Inr plan \<Longrightarrow>
   sample_day plan =
     [\<lparr>meal = ''Breakfast'',
       ideas = [''Oatmeal with chia and berries'',
                (if DietRequest.food_type info \<noteq> ''vegan'' then ''Veggie omelette''
                 else ''Tofu scramble''),
                ''Smoothie with spinach, banana, and plant milk'']\<rparr>,
      \<lparr>meal = ''Lunch'',
       ideas = [''Quinoa bowl with beans and veggies'',
                (if DietRequest.food_type info = ''non-veg'' then ''Grilled chicken salad''
                 else ''Chickpea salad''),
                ''Lentil soup with whole-grain toast'']\<rparr>,
      \<lparr>meal = ''Dinner'',
       ideas = [''Stir-fry veggies with tofu/tempeh'',
                (if DietRequest.food_type info = ''non-veg''
                 then ''Baked fish with steamed veggies'' else ''Rajma with brown rice''),
                ''Vegetable khichdi or millet upma'']\<rparr>]"
  by (auto simp add: generate_diet_plan_def and_then_def Let_def split: sum.splits)

lemma length_spec_food_type_lines: "length (spec_food_type_lines ft) \<le> 1"
  by (simp add: spec_food_type_lines_def)

lemma length_spec_goal_branch:
  "length (spec_goal_branch g) =
     (if g \<in> set [''lose-weight'', ''gain-weight'', ''post-surgery-guidance''] then 3 else 1)"
  by (simp add: spec_goal_branch_def)

text \<open>
  Claim C2. The guidelines of a plan the handler returns are the food-type lines of the
  request's \<open>food_type\<close> followed by the one goal branch of its \<open>goal\<close>, so two requests
  with the same \<open>food_type\<close> and \<open>goal\<close> get the same guidelines, whatever their other
  fields; for \<open>vegan\<close> and \<open>lose-weight\<close> the list is the legume/tofu line followed by the
  three lose-weight lines, four entries in all.
\<close>

theorem guidelines_function_of_food_type_and_goal:
  "generate_diet_plan fl info = Inr plan \<Longrightarrow>
   guidelines plan =
     spec_food_type_lines (DietRequest.food_type info) @ spec_goal_branch (goal info)
   \<and> (\<forall>info' plan'. generate_diet_plan fl info' = Inr plan' \<and>
         DietRequest.food_type info = DietRequest.food_type info' \<and> goal info = goal info'
        \<longrightarrow> guidelines plan = guidelines plan')
   \<and> (DietRequest.food_type info = ''vegan'' \<and> goal info = ''lose-weight'' \<longrightarrow>
        guidelines plan =
          [''Prioritize legumes, tofu, nuts, seeds for protein.'',
           ''Aim for a 300-500 kcal deficit.'',
           ''High-volume, low-calorie foods (salads, soups).'',
           ''30-40 minutes of brisk walking or cardio, 5x/week.''])"
proof -
  assume ret: "generate_diet_plan fl info = Inr plan"
  have split: "guidelines plan =
     spec_food_type_lines (DietRequest.food_type info) @ spec_goal_branch (goal info)"
    by (rule guidelines_split [OF ret])
  have same: "guidelines plan = guidelines plan'"
    if "generate_diet_plan fl info' = Inr plan' \<and>
         DietRequest.food_type info = DietRequest.food_type info' \<and> goal info = goal info'"
    for info' plan'
    using that guidelines_split [of fl info' plan'] by (simp add: split)
  have four: "guidelines plan =
          [''Prioritize legumes, tofu, nuts, seeds for protein.'',
           ''Aim for a 300-500 kcal deficit.'',
           ''High-volume, low-calorie foods (salads, soups).'',
           ''30-40 minutes of brisk walking or cardio, 5x/week.'']"
    if "DietRequest.food_type info = ''vegan'' \<and> goal info = ''lose-weight''"
    using that by (simp add: split spec_food_type_lines_def spec_goal_branch_def)
  from split same four show ?thesis by blast
qed

theorem guidelines_function_of_food_type_and_goal_witness:
  "valid_DietRequest (diet_request ''vegan'' ''lose-weight'')
   \<and> (\<exists>plan plan'.
        generate_diet_plan exact_arith (diet_request ''vegan'' ''lose-weight'') = Inr plan
        \<and> generate_diet_plan exact_arith
             ((diet_request ''vegan'' ''lose-weight'')\<lparr>age := 80, weight_kg := Finite 60\<rparr>)
           = Inr plan'
        \<and> guidelines plan = guidelines plan'
        \<and> guidelines plan =
            [''Prioritize legumes, tofu, nuts, seeds for protein.'',
             ''Aim for a 300-500 kcal deficit.'',
             ''High-volume, low-calorie foods (salads, soups).'',
             ''30-40 minutes of brisk walking or cardio, 5x/week.''])"
proof -
  let ?a = "diet_request ''vegan'' ''lose-weight''"
  let ?b = "?a\<lparr>age := 80, weight_kg := Finite 60\<rparr>"
  obtain plan where a: "generate_diet_plan exact_arith ?a = Inr plan"
    using example_request_returns by blast
  have "\<exists>plan'. generate_diet_plan exact_arith ?b = Inr plan'"
    by (simp add: generate_diet_plan_returns_iff exact_arith_def diet_request_def)
  then obtain plan' where b: "generate_diet_plan exact_arith ?b = Inr plan'"
    by blast
  have same: "DietRequest.food_type ?a = DietRequest.food_type ?b \<and> goal ?a = goal ?b"
    by (simp add: diet_request_def)
  have this_one: "DietRequest.food_type ?a = ''vegan'' \<and> goal ?a = ''lose-weight''"
    by (simp add: diet_request_def)
  have valid: "valid_DietRequest ?a"
    by (simp add: valid_diet_request food_types_def goals_def)
  from guidelines_function_of_food_type_and_goal [OF a] b same this_one valid a
  show ?thesis by blast
qed

text \<open>
  Claim C3, as stated: some valid request has all three food-type lines in the guidelines
  returned for it. No valid request has, whatever the arithmetic.
\<close>

theorem food_type_lines_never_all_together:
  "\<not> (\<exists>fl info plan. valid_DietRequest info \<and> generate_diet_plan fl info = Inr plan \<and>
         set [''Prioritize legumes, tofu, nuts, seeds for protein.'',
              ''Lean proteins like chicken, fish, eggs; minimize fried foods.'',
              ''Use lactose-free dairy or fortified plant milks.'']
           \<subseteq> set (guidelines plan))"
proof
  assume "\<exists>fl info plan. valid_DietRequest info \<and> generate_diet_plan fl info = Inr plan \<and>
         set [''Prioritize legumes, tofu, nuts, seeds for protein.'',
              ''Lean proteins like chicken, fish, eggs; minimize fried foods.'',
              ''Use lactose-free dairy or fortified plant milks.'']
           \<subseteq> set (guidelines plan)"
  then obtain fl info plan where ret: "generate_diet_plan fl info = Inr plan"
    and all: "set [''Prioritize legumes, tofu, nuts, seeds for protein.'',
              ''Lean proteins like chicken, fish, eggs; minimize fried foods.'',
              ''Use lactose-free dairy or fortified plant milks.'']
           \<subseteq> set (guidelines plan)"
    by blast
  from all show False
    by (auto simp add: guidelines_split [OF ret] spec_food_type_lines_def spec_goal_branch_def
          split: if_splits)
qed

text \<open>
  Claim C3, amended. In the guidelines of a plan the handler returns, each food-type line
  is present exactly when its own test on \<open>food_type\<close> succeeds, and the three tests
  exclude one another: at most one of the three lines is among the guidelines.
\<close>

theorem food_type_lines_mutually_exclusive:
  "generate_diet_plan fl info = Inr plan \<Longrightarrow>
   (''Prioritize legumes, tofu, nuts, seeds for protein.'' \<in> set (guidelines plan)
      \<longleftrightarrow> DietRequest.food_type info \<in> set [''veg'', ''vegan''])
   \<and> (''Lean proteins like chicken, fish, eggs; minimize fried foods.''
         \<in> set (guidelines plan)
      \<longleftrightarrow> DietRequest.food_type info = ''non-veg'')
   \<and> (''Use lactose-free dairy or fortified plant milks.'' \<in> set (guidelines plan)
      \<longleftrightarrow> DietRequest.food_type info = ''lactose-intolerant'')
   \<and> length (filter
         (\<lambda>l. l \<in> set [''Prioritize legumes, tofu, nuts, seeds for protein.'',
                       ''Lean proteins like chicken, fish, eggs; minimize fried foods.'',
                       ''Use lactose-free dairy or fortified plant milks.''])
         (guidelines plan)) \<le> 1"
  by (simp add: guidelines_split spec_food_type_lines_def spec_goal_branch_def)

theorem food_type_lines_mutually_exclusive_witness:
  "valid_DietRequest (diet_request ''non-veg'' ''maintain'')
   \<and> (\<exists>plan. generate_diet_plan exact_arith (diet_request ''non-veg'' ''maintain'') = Inr plan
        \<and> ''Lean proteins like chicken, fish, eggs; minimize fried foods.''
             \<in> set (guidelines plan)
        \<and> ''Prioritize legumes, tofu, nuts, seeds for protein.'' \<notin> set (guidelines plan)
        \<and> ''Use lactose-free dairy or fortified plant milks.'' \<notin> set (guidelines plan))"
proof -
  obtain plan where ret:
    "generate_diet_plan exact_arith (diet_request ''non-veg'' ''maintain'') = Inr plan"
    using example_request_returns by blast
  have ft: "DietRequest.food_type (diet_request ''non-veg'' ''maintain'') = ''non-veg''"
    by (simp add: diet_request_def)
  have valid: "valid_DietRequest (diet_request ''non-veg'' ''maintain'')"
    by (simp add: valid_diet_request food_types_def goals_def)
  from food_type_lines_mutually_exclusive [OF ret]
  have "''Lean proteins like chicken, fish, eggs; minimize fried foods.''
             \<in> set (guidelines plan)
        \<and> ''Prioritize legumes, tofu, nuts, seeds for protein.'' \<notin> set (guidelines plan)
        \<and> ''Use lactose-free dairy or fortified plant milks.'' \<notin> set (guidelines plan)"
    unfolding ft by simp
  with ret valid show ?thesis by blast
qed

text \<open>
  Claim C4. The sample day of a plan the handler returns has the three entries Breakfast,
  Lunch and Dinner in this order, each with three ideas. The second idea is: for
  \<open>non-veg\<close>, grilled chicken salad at lunch and baked fish at dinner; for \<open>vegan\<close>, tofu
  scramble at breakfast; otherwise the vegetarian default of the slot. The first and
  third ideas are fixed.
\<close>

theorem sample_day_three_meals:
  "generate_diet_plan fl info = Inr plan \<Longrightarrow>
   map meal (sample_day plan) = [''Breakfast'', ''Lunch'', ''Dinner'']
   \<and> map (\<lambda>m. length (ideas m)) (sample_day plan) = [3, 3, 3]
   \<and> (DietRequest.food_type info = ''non-veg'' \<longrightarrow>
        ideas (sample_day plan ! 1) ! 1 = ''Grilled chicken salad'' \<and>
        ideas (sample_day plan ! 2) ! 1 = ''Baked fish with steamed veggies'')
   \<and> (DietRequest.food_type info = ''vegan'' \<longrightarrow>
        ideas (sample_day plan ! 0) ! 1 = ''Tofu scramble'')
   \<and> (DietRequest.food_type info \<noteq> ''vegan'' \<longrightarrow>
        ideas (sample_day plan ! 0) ! 1 = ''Veggie omelette'')
   \<and> (DietRequest.food_type info \<noteq> ''non-veg'' \<longrightarrow>
        ideas (sample_day plan ! 1) ! 1 = ''Chickpea salad'' \<and>
        ideas (sample_day plan ! 2) ! 1 = ''Rajma with brown rice'')
   \<and> map (\<lambda>m. (ideas m ! 0, ideas m ! 2)) (sample_day plan) =
       [(''Oatmeal with chia and berries'', ''Smoothie with spinach, banana, and plant milk''),
        (''Quinoa bowl with beans and veggies'', ''Lentil soup with whole-grain toast''),
        (''Stir-fry veggies with tofu/tempeh'', ''Vegetable khichdi or millet upma'')]"
  by (simp add: sample_day_returned)

theorem sample_day_three_meals_witness:
  "(\<exists>plan. generate_diet_plan exact_arith (diet_request ''non-veg'' ''other'') = Inr plan
      \<and> ideas (sample_day plan ! 1) ! 1 = ''Grilled chicken salad''
      \<and> ideas (sample_day plan ! 2) ! 1 = ''Baked fish with steamed veggies''
      \<and> ideas (sample_day plan ! 0) ! 1 = ''Veggie omelette'')
   \<and> (\<exists>plan. generate_diet_plan exact_arith (diet_request ''vegan'' ''other'') = Inr plan
      \<and> ideas (sample_day plan ! 0) ! 1 = ''Tofu scramble''
      \<and> ideas (sample_day plan ! 1) ! 1 = ''Chickpea salad''
      \<and> ideas (sample_day plan ! 2) ! 1 = ''Rajma with brown rice'')"
proof -
  obtain p where p: "generate_diet_plan exact_arith (diet_request ''non-veg'' ''other'') = Inr p"
    using example_request_returns by blast
  obtain q where q: "generate_diet_plan exact_arith (diet_request ''vegan'' ''other'') = Inr q"
    using example_request_returns by blast
  have non_veg: "DietRequest.food_type (diet_request ''non-veg'' ''other'') = ''non-veg''"
    and not_vegan: "DietRequest.food_type (diet_request ''non-veg'' ''other'') \<noteq> ''vegan''"
    and vegan: "DietRequest.food_type (diet_request ''vegan'' ''other'') = ''vegan''"
    and not_non_veg: "DietRequest.food_type (diet_request ''vegan'' ''other'') \<noteq> ''non-veg''"
    by (simp_all add: diet_request_def)
  from sample_day_three_meals [OF p] non_veg not_vegan
  have first: "ideas (sample_day p ! 1) ! 1 = ''Grilled chicken salad''
      \<and> ideas (sample_day p ! 2) ! 1 = ''Baked fish with steamed veggies''
      \<and> ideas (sample_day p ! 0) ! 1 = ''Veggie omelette''"
    by blast
  from sample_day_three_meals [OF q] vegan not_non_veg
  have second: "ideas (sample_day q ! 0) ! 1 = ''Tofu scramble''
      \<and> ideas (sample_day q ! 1) ! 1 = ''Chickpea salad''
      \<and> ideas (sample_day q ! 2) ! 1 = ''Rajma with brown rice''"
    by blast
  from p first q second show ?thesis by blast
qed

text \<open>
  Claim C10. The guidelines of a plan the handler returns are never empty and have at
  most four entries: they are at most one food-type line (the three tests on \<open>food_type\<close>
  exclude one another) followed by the goal branch, which has three lines for
  \<open>lose-weight\<close>, \<open>gain-weight\<close> and \<open>post-surgery-guidance\<close> and is the one generic line for
  every other goal.
\<close>

theorem guidelines_between_one_and_four:
  "generate_diet_plan fl info = Inr plan \<Longrightarrow>
   guidelines plan \<noteq> []
   \<and> length (guidelines plan) \<le> 4
   \<and> (\<exists>food_lines goal_lines. guidelines plan = food_lines @ goal_lines
        \<and> length food_lines \<le> 1
        \<and> set food_lines \<subseteq> set [''Prioritize legumes, tofu, nuts, seeds for protein.'',
                 ''Lean proteins like chicken, fish, eggs; minimize fried foods.'',
                 ''Use lactose-free dairy or fortified plant milks.'']
        \<and> length goal_lines =
            (if goal info \<in> set [''lose-weight'', ''gain-weight'', ''post-surgery-guidance'']
             then 3 else 1)
        \<and> (goal info \<notin> set [''lose-weight'', ''gain-weight'', ''post-surgery-guidance'']
             \<longrightarrow> goal_lines
                  = [''Balanced plate: half veggies, quarter protein, quarter whole grains.'']))
   \<and> \<not> (DietRequest.food_type info \<in> set [''veg'', ''vegan'']
          \<and> DietRequest.food_type info = ''non-veg'')
   \<and> \<not> (DietRequest.food_type info \<in> set [''veg'', ''vegan'']
          \<and> DietRequest.food_type info = ''lactose-intolerant'')
   \<and> \<not> (DietRequest.food_type info = ''non-veg''
          \<and> DietRequest.food_type info = ''lactose-intolerant'')"
proof -
  assume ret: "generate_diet_plan fl info = Inr plan"
  let ?fl = "spec_food_type_lines (DietRequest.food_type info)"
  let ?gl = "spec_goal_branch (goal info)"
  let ?three = "[''lose-weight'', ''gain-weight'', ''post-surgery-guidance'']"
  have split: "guidelines plan = ?fl @ ?gl"
    by (rule guidelines_split [OF ret])
  have lf: "length ?fl \<le> 1"
    by (rule length_spec_food_type_lines)
  have lg: "length ?gl = (if goal info \<in> set ?three then 3 else 1)"
    by (rule length_spec_goal_branch)
  have sf: "set ?fl \<subseteq> set [''Prioritize legumes, tofu, nuts, seeds for protein.'',
                 ''Lean proteins like chicken, fish, eggs; minimize fried foods.'',
                 ''Use lactose-free dairy or fortified plant milks.'']"
    by (auto simp add: spec_food_type_lines_def)
  have generic: "goal info \<notin> set ?three
      \<longrightarrow> ?gl = [''Balanced plate: half veggies, quarter protein, quarter whole grains.'']"
    by (simp add: spec_goal_branch_def)
  have nonempty: "guidelines plan \<noteq> []"
    using lg by (auto simp: split split: if_splits)
  have at_most: "length (guidelines plan) \<le> 4"
    using lf lg by (simp add: split split: if_splits)
  have exclusive:
    "\<not> (DietRequest.food_type info \<in> set [''veg'', ''vegan'']
          \<and> DietRequest.food_type info = ''non-veg'')"
    "\<not> (DietRequest.food_type info \<in> set [''veg'', ''vegan'']
          \<and> DietRequest.food_type info = ''lactose-intolerant'')"
    "\<not> (DietRequest.food_type info = ''non-veg''
          \<and> DietRequest.food_type info = ''lactose-intolerant'')"
    by auto
  from split lf sf lg generic have
    "\<exists>food_lines goal_lines. guidelines plan = food_lines @ goal_lines
        \<and> length food_lines \<le> 1
        \<and> set food_lines \<subseteq> set [''Prioritize legumes, tofu, nuts, seeds for protein.'',
                 ''Lean proteins like chicken, fish, eggs; minimize fried foods.'',
                 ''Use lactose-free dairy or fortified plant milks.'']
        \<and> length goal_lines = (if goal info \<in> set ?three then 3 else 1)
        \<and> (goal info \<notin> set ?three
             \<longrightarrow> goal_lines
                  = [''Balanced plate: half veggies, quarter protein, quarter whole grains.''])"
    by blast
  with nonempty at_most exclusive show ?thesis by blast
qed

theorem guidelines_between_one_and_four_witness:
  "valid_DietRequest (diet_request ''keto'' ''maintain'')
   \<and> (\<exists>plan. generate_diet_plan exact_arith (diet_request ''keto'' ''maintain'') = Inr plan
        \<and> length (guidelines plan) = 1)
   \<and> valid_DietRequest (diet_request ''veg'' ''gain-weight'')
   \<and> (\<exists>plan. generate_diet_plan exact_arith (diet_request ''veg'' ''gain-weight'') = Inr plan
        \<and> length (guidelines plan) = 4)"
proof -
  obtain p where p: "generate_diet_plan exact_arith (diet_request ''keto'' ''maintain'') = Inr p"
    using example_request_returns by blast
  obtain q where q: "generate_diet_plan exact_arith (diet_request ''veg'' ''gain-weight'') = Inr q"
    using example_request_returns by blast
  have valid: "valid_DietRequest (diet_request ''keto'' ''maintain'')"
    "valid_DietRequest (diet_request ''veg'' ''gain-weight'')"
    by (simp_all add: valid_diet_request food_types_def goals_def)
  have fields: "DietRequest.food_type (diet_request ''keto'' ''maintain'') = ''keto''"
    "goal (diet_request ''keto'' ''maintain'') = ''maintain''"
    "DietRequest.food_type (diet_request ''veg'' ''gain-weight'') = ''veg''"
    "goal (diet_request ''veg'' ''gain-weight'') = ''gain-weight''"
    by (simp_all add: diet_request_def)
  have "length (guidelines p) = 1"
    using guidelines_between_one_and_four [OF p] guidelines_split [OF p]
    by (simp add: fields spec_food_type_lines_def spec_goal_branch_def)
  moreover have "length (guidelines q) = 4"
    using guidelines_between_one_and_four [OF q] guidelines_split [OF q]
    by (simp add: fields spec_food_type_lines_def spec_goal_branch_def)
  ultimately show ?thesis using p q valid by blast
qed

section \<open>Properties of signup and login\<close>

lemma matches_email_password:
  "matches [(''email'', JStr e), (''password'', JStr p)] u \<longleftrightarrow>
     map_of u ''email'' = Some (JStr e) \<and> map_of u ''password'' = Some (JStr p)"
  by (simp add: matches_def)

lemma find_one_None_iff:
  "find_one coll flt = None \<longleftrightarrow> (\<forall>u \<in> set coll. \<not> matches flt u)"
  by (auto simp add: find_one_def find_None_iff)

lemma find_one_SomeD:
  "find_one coll flt = Some u \<Longrightarrow> u \<in> set coll \<and> matches flt u"
  by (auto simp add: find_one_def find_Some_iff)

lemma signup_configured:
  "signup gen (Some d) payload = (Inl NotImplementedError, Some d)"
  by (simp add: signup_def db_truth_value_def)

lemma signup_not_configured:
  "fst (signup gen None payload) = Inl ValidationError
   \<or> fst (signup gen None payload) = Inl StoreError"
  by (simp add: signup_def db_truth_value_def mk_User_def create_document_def)

text \<open>
  Claim C5: a signup whose e-mail address is that of a stored user record fails with
  \<open>HTTPException(400, "User already exists")\<close> and leaves the store as it was, and a
  signup succeeds, with one record inserted, only when no stored record has the address.
  The handler does not do this. With a store that holds a record for
  \<open>ada@example.org\<close>, a signup with that address does not end in the 400 but in the
  \<open>NotImplementedError\<close> of the truth test of line 35, before the lookup; and so does a
  signup with a new address, which inserts nothing.
\<close>

theorem signup_truth_test_raises:
  "signup fixed_id (Some one_user) (credentials ''ada@example.org'' ''12345'')
     = (Inl NotImplementedError, Some one_user)
   \<and> signup fixed_id (Some one_user) (credentials ''ada@example.org'' ''12345'')
     \<noteq> (Inl (HTTPException 400 ''User already exists''), Some one_user)
   \<and> signup fixed_id (Some one_user) (credentials ''bob@example.org'' ''hunter2'')
     = (Inl NotImplementedError, Some one_user)"
  by (simp add: signup_configured)

text \<open>
  Claim C6. With a configured store, login fails with
  \<open>HTTPException(401, "Invalid credentials")\<close> exactly when no stored user record has both
  the e-mail address and the password of the request. When some record has both, the
  response is made of \<open>ok\<close>, the e-mail address and the name of such a record, and of
  nothing else: a response has the keys \<open>ok\<close>, \<open>email\<close> and \<open>name\<close> only. The store after
  login is the store before it.
\<close>

theorem login_unauthorized_iff_no_match:
  "db = Some d \<Longrightarrow>
    (fst (login db payload) = Inl (HTTPException 401 ''Invalid credentials'') \<longleftrightarrow>
       \<not> (\<exists>u \<in> set (d ''user'').
             map_of u ''email'' = Some (JStr (AuthPayload.email payload)) \<and>
             map_of u ''password'' = Some (JStr (AuthPayload.password payload))))
    \<and> ((\<exists>u \<in> set (d ''user'').
             map_of u ''email'' = Some (JStr (AuthPayload.email payload)) \<and>
             map_of u ''password'' = Some (JStr (AuthPayload.password payload))) \<longrightarrow>
        (\<exists>u \<in> set (d ''user'').
             map_of u ''email'' = Some (JStr (AuthPayload.email payload)) \<and>
             map_of u ''password'' = Some (JStr (AuthPayload.password payload)) \<and>
             fst (login db payload) =
               Inr [(''ok'', JBool True), (''email'', JStr (AuthPayload.email payload)),
                    (''name'', dict_get u ''name'')]))
    \<and> (\<forall>r. fst (login db payload) = Inr r \<longrightarrow> map fst r = [''ok'', ''email'', ''name''])
    \<and> snd (login db payload) = db"
proof -
  assume db: "db = Some d"
  let ?flt = "[(''email'', JStr (AuthPayload.email payload)),
               (''password'', JStr (AuthPayload.password payload))]"
  let ?P = "\<lambda>u. map_of u ''email'' = Some (JStr (AuthPayload.email payload)) \<and>
             map_of u ''password'' = Some (JStr (AuthPayload.password payload))"
  show ?thesis
  proof (cases "find_one (d ''user'') ?flt")
    case None
    then have no: "\<not> (\<exists>u \<in> set (d ''user''). ?P u)"
      by (simp add: find_one_None_iff matches_email_password)
    from None db have "login db payload = (Inl (HTTPException 401 ''Invalid credentials''), db)"
      by (simp add: login_def)
    with no show ?thesis by simp
  next
    case (Some u)
    then have u: "u \<in> set (d ''user'')" "?P u"
      using find_one_SomeD [OF Some] by (simp_all add: matches_email_password)
    then have ne: "u \<noteq> []" by auto
    from u have em: "dict_get u ''email'' = JStr (AuthPayload.email payload)"
      by (simp add: dict_get_def)
    from Some db ne em have "login db payload =
       (Inr [(''ok'', JBool True), (''email'', JStr (AuthPayload.email payload)),
             (''name'', dict_get u ''name'')], db)"
      by (simp add: login_def)
    with u show ?thesis by auto
  qed
qed

theorem login_unauthorized_iff_no_match_witness:
  "fst (login (Some one_user) (credentials ''ada@example.org'' ''wrong''))
     = Inl (HTTPException 401 ''Invalid credentials'')
   \<and> fst (login (Some one_user) (credentials ''ada@example.org'' ''lovelace''))
     = Inr [(''ok'', JBool True), (''email'', JStr ''ada@example.org''), (''name'', JStr ''ada'')]
   \<and> snd (login (Some one_user) (credentials ''ada@example.org'' ''lovelace'')) = Some one_user"
proof -
  let ?wrong = "credentials ''ada@example.org'' ''wrong''"
  let ?right = "credentials ''ada@example.org'' ''lovelace''"
  have no: "\<not> (\<exists>u \<in> set (one_user ''user'').
             map_of u ''email'' = Some (JStr (AuthPayload.email ?wrong)) \<and>
             map_of u ''password'' = Some (JStr (AuthPayload.password ?wrong)))"
    by (simp add: one_user_def credentials_def)
  have yes: "\<exists>u \<in> set (one_user ''user'').
             map_of u ''email'' = Some (JStr (AuthPayload.email ?right)) \<and>
             map_of u ''password'' = Some (JStr (AuthPayload.password ?right))"
    by (simp add: one_user_def credentials_def)
  have only: "u \<in> set (one_user ''user'') \<Longrightarrow> dict_get u ''name'' = JStr ''ada''" for u
    by (simp add: one_user_def dict_get_def)
  have em: "AuthPayload.email ?right = ''ada@example.org''"
    by (simp add: credentials_def)
  from login_unauthorized_iff_no_match [OF refl, of one_user ?wrong] no
  have first: "fst (login (Some one_user) ?wrong) = Inl (HTTPException 401 ''Invalid credentials'')"
    by blast
  from login_unauthorized_iff_no_match [OF refl, of one_user ?right] yes only
  have "fst (login (Some one_user) ?right)
     = Inr [(''ok'', JBool True), (''email'', JStr (AuthPayload.email ?right)), (''name'', JStr ''ada'')]
     \<and> snd (login (Some one_user) ?right) = Some one_user"
    by metis
  with first show ?thesis by (simp only: em)
qed

section \<open>Properties of the recipe search\<close>

lemma try_results_eq:
  "try_results service payload =
     (case and_then (and_then (fst (requested_meals service payload)) slice12)
             (\<lambda>ms. append_summaries ms []) of Inl e \<Rightarrow> [] | Inr rs \<Rightarrow> rs,
      snd (requested_meals service payload))"
  by (simp add: try_results_def case_prod_beta)

lemma calls_recipe_search:
  "calls (recipe_search gen service db payload) = snd (requested_meals service payload)"
  by (simp add: recipe_search_def try_results_eq Let_def split: prod.splits sum.splits)

lemma response_recipe_search:
  "response (recipe_search gen service db payload) =
     (if is_truthy (user_email payload) \<and> db = None then Inl StoreError
      else Inr \<lparr>results = fst (try_results service payload)\<rparr>)"
  by (auto simp add: recipe_search_def create_document_def Let_def
        split: prod.splits option.splits)

lemma append_summaries_objs:
  "append_summaries (map JObj fs) acc =
     Inr (acc @ map (\<lambda>f. JObj [(''id'', dict_get f ''idMeal''),
                               (''title'', dict_get f ''strMeal''),
                               (''thumbnail'', dict_get f ''strMealThumb''),
                               (''category'', dict_get f ''strCategory''),
                               (''area'', dict_get f ''strArea'')]) fs)"
  by (induction fs arbitrary: acc) simp_all

lemma try_results_failed:
  "fst (requested_meals service payload) = Inl e \<Longrightarrow> fst (try_results service payload) = []"
  by (simp add: try_results_eq and_then_def)

lemma try_results_objs:
  "fst (requested_meals service payload) = Inr (JArr ms) \<Longrightarrow> take 12 ms = map JObj fs \<Longrightarrow>
   fst (try_results service payload) =
     map (\<lambda>f. JObj [(''id'', dict_get f ''idMeal''),
                    (''title'', dict_get f ''strMeal''),
                    (''thumbnail'', dict_get f ''strMealThumb''),
                    (''category'', dict_get f ''strCategory''),
                    (''area'', dict_get f ''strArea'')]) fs"
  by (simp add: try_results_eq and_then_def append_summaries_objs)

lemma requested_meals_call:
  "snd (requested_meals service payload) = [c] \<Longrightarrow>
     fst (requested_meals service payload) = and_then (get_json service c) meals_of"
  by (auto simp add: requested_meals_def Let_def split: if_splits)

lemma requested_meals_neither:
  "(query payload = None \<or> query payload = Some []) \<Longrightarrow>
   (ingredients payload = None \<or> ingredients payload = Some []) \<Longrightarrow>
   requested_meals service payload = (Inr (JArr []), [])"
  by (auto simp add: requested_meals_def is_truthy_def)

text \<open>
  Claim C7, as stated: when \<open>query\<close> is set, the search-by-name endpoint is called with
  it. A request whose \<open>query\<close> is the empty string has \<open>query\<close> set, and no call is made
  for it.
\<close>

theorem empty_query_is_not_searched:
  "query (search_for (Some '''') None) \<noteq> None
   \<and> calls (recipe_search fixed_id (\<lambda>c. Raises) None (search_for (Some '''') None)) = []
   \<and> calls (recipe_search fixed_id (\<lambda>c. Raises) None (search_for (Some '''') None))
       \<noteq> [(search_url, [(''s'', '''')])]"
  by (simp add: calls_recipe_search requested_meals_def is_truthy_def search_for_def Let_def)

text \<open>
  Claim C7, amended. When \<open>query\<close> is set and not empty, one request goes to the
  search-by-name endpoint, with that term. Otherwise, when \<open>ingredients\<close> is set and not
  empty, one request goes to the filter-by-ingredients endpoint, with the list joined by
  commas. Otherwise no request is sent and the result list is empty: the handler returns
  it, unless \<open>user_email\<close> is present and there is no store to record the search in.
\<close>

theorem recipe_search_dispatch:
  "(\<forall>q. query payload = Some q \<and> q \<noteq> [] \<longrightarrow>
       calls (recipe_search gen service db payload) = [(search_url, [(''s'', q)])])
   \<and> (\<forall>xs. (query payload = None \<or> query payload = Some []) \<and>
          ingredients payload = Some xs \<and> xs \<noteq> [] \<longrightarrow>
       calls (recipe_search gen service db payload) = [(filter_url, [(''i'', join '','' xs)])])
   \<and> ((query payload = None \<or> query payload = Some []) \<and>
       (ingredients payload = None \<or> ingredients payload = Some []) \<longrightarrow>
       calls (recipe_search gen service db payload) = [] \<and>
       response (recipe_search gen service db payload) =
         (if is_truthy (user_email payload) \<and> db = None then Inl StoreError
          else Inr \<lparr>results = []\<rparr>))"
proof -
  have by_name: "calls (recipe_search gen service db payload) = [(search_url, [(''s'', q)])]"
    if "query payload = Some q \<and> q \<noteq> []" for q
    using that by (simp add: calls_recipe_search requested_meals_def is_truthy_def Let_def)
  have by_ingredients:
    "calls (recipe_search gen service db payload) = [(filter_url, [(''i'', join '','' xs)])]"
    if "(query payload = None \<or> query payload = Some []) \<and>
          ingredients payload = Some xs \<and> xs \<noteq> []" for xs
    using that by (auto simp add: calls_recipe_search requested_meals_def is_truthy_def Let_def)
  have neither: "calls (recipe_search gen service db payload) = [] \<and>
       response (recipe_search gen service db payload) =
         (if is_truthy (user_email payload) \<and> db = None then Inl StoreError
          else Inr \<lparr>results = []\<rparr>)"
    if "(query payload = None \<or> query payload = Some []) \<and>
       (ingredients payload = None \<or> ingredients payload = Some [])"
  proof -
    from that have "requested_meals service payload = (Inr (JArr []), [])"
      by (simp add: requested_meals_neither)
    then show ?thesis
      by (simp add: calls_recipe_search response_recipe_search try_results_eq and_then_def)
  qed
  from by_name by_ingredients neither show ?thesis by blast
qed

theorem recipe_search_dispatch_witness:
  "calls (recipe_search fixed_id (\<lambda>c. Raises) None (search_for (Some ''chicken'') None))
     = [(search_url, [(''s'', ''chicken'')])]
   \<and> calls (recipe_search fixed_id (\<lambda>c. Raises) None
              (search_for (Some '''') (Some [''egg'', ''rice''])))
     = [(filter_url, [(''i'', ''egg,rice'')])]
   \<and> calls (recipe_search fixed_id (\<lambda>c. Raises) None (search_for None (Some []))) = []
   \<and> response (recipe_search fixed_id (\<lambda>c. Raises) None (search_for None (Some [])))
     = Inr \<lparr>results = []\<rparr>"
proof -
  let ?run = "recipe_search fixed_id (\<lambda>c. Raises) None"
  have name: "query (search_for (Some ''chicken'') None) = Some ''chicken'' \<and> ''chicken'' \<noteq> []"
    by (simp add: search_for_def)
  have ingr: "(query (search_for (Some '''') (Some [''egg'', ''rice''])) = None
               \<or> query (search_for (Some '''') (Some [''egg'', ''rice''])) = Some [])
      \<and> ingredients (search_for (Some '''') (Some [''egg'', ''rice''])) = Some [''egg'', ''rice'']
      \<and> [''egg'', ''rice''] \<noteq> []"
    by (simp add: search_for_def)
  have none: "(query (search_for None (Some [])) = None \<or> query (search_for None (Some [])) = Some [])
      \<and> (ingredients (search_for None (Some [])) = None
          \<or> ingredients (search_for None (Some [])) = Some [])"
    by (simp add: search_for_def)
  have anonymous: "\<not> is_truthy (user_email (search_for None (Some [])))"
    by (simp add: search_for_def is_truthy_def)
  have joined: "join '','' [''egg'', ''rice''] = ''egg,rice''"
    by simp
  from recipe_search_dispatch [of "search_for (Some ''chicken'') None" fixed_id "\<lambda>c. Raises" None]
    name
  have first: "calls (?run (search_for (Some ''chicken'') None)) = [(search_url, [(''s'', ''chicken'')])]"
    by blast
  from recipe_search_dispatch
         [of "search_for (Some '''') (Some [''egg'', ''rice''])" fixed_id "\<lambda>c. Raises" None] ingr
  have "calls (?run (search_for (Some '''') (Some [''egg'', ''rice''])))
          = [(filter_url, [(''i'', join '','' [''egg'', ''rice''])])]"
    by blast
  then have second: "calls (?run (search_for (Some '''') (Some [''egg'', ''rice''])))
          = [(filter_url, [(''i'', ''egg,rice'')])]"
    by (simp only: joined)
  from recipe_search_dispatch [of "search_for None (Some [])" fixed_id "\<lambda>c. Raises" None]
    none anonymous
  have third: "calls (?run (search_for None (Some []))) = []
      \<and> response (?run (search_for None (Some []))) = Inr \<lparr>results = []\<rparr>"
    by simp
  from first second third show ?thesis by blast
qed

text \<open>
  Claim C8, as stated: a reply with a status code outside 200-299 is a failure and gives
  the empty result list. A reply with status 500 whose body is a JSON object with one
  meal gives that meal's summary.
\<close>

theorem non_2xx_reply_is_processed:
  "response (recipe_search fixed_id (\<lambda>c. Response 500 (Some one_meal)) None
               (search_for (Some ''chicken'') None))
     = Inr \<lparr>results = [JObj [(''id'', JStr ''52772''), (''title'', JStr ''Teriyaki Chicken''),
                              (''thumbnail'', JNull), (''category'', JNull),
                              (''area'', JNull)]]\<rparr>
   \<and> response (recipe_search fixed_id (\<lambda>c. Response 500 (Some one_meal)) None
               (search_for (Some ''chicken'') None))
     \<noteq> Inr \<lparr>results = []\<rparr>"
  by (simp add: response_recipe_search try_results_eq requested_meals_def is_truthy_def
        and_then_def get_json_def dict_get_def search_for_def one_meal_def)

text \<open>
  Claim C8, amended. No exception of the external call reaches the caller: the only error
  the handler can end in is that of recording the search without a store. When
  \<open>requests.get\<close> raises (network error, timeout), when the body of the reply is not JSON,
  or when it is JSON but not an object, the result list is empty and the handler returns
  it. The status code of a reply is not looked at: two recipe services that differ in
  status codes only give the same outcome.
\<close>

theorem external_failure_gives_empty_results:
  "(\<forall>e. response (recipe_search gen service db payload) = Inl e \<longrightarrow>
        e = StoreError \<and> is_truthy (user_email payload) \<and> db = None)
   \<and> (calls (recipe_search gen service db payload) = [c] \<and>
       (service c = Raises \<or> (\<exists>st. service c = Response st None) \<or>
        (\<exists>st data. service c = Response st (Some data) \<and> (\<forall>d. data \<noteq> JObj d))) \<longrightarrow>
       response (recipe_search gen service db payload) =
         (if is_truthy (user_email payload) \<and> db = None then Inl StoreError
          else Inr \<lparr>results = []\<rparr>))
   \<and> recipe_search gen
        (\<lambda>c. case service c of Raises \<Rightarrow> Raises | Response st body \<Rightarrow> Response st' body)
        db payload = recipe_search gen service db payload"
proof -
  have surfaced: "\<forall>e. response (recipe_search gen service db payload) = Inl e \<longrightarrow>
        e = StoreError \<and> is_truthy (user_email payload) \<and> db = None"
    by (auto simp add: response_recipe_search split: if_splits)
  have suppressed: "response (recipe_search gen service db payload) =
         (if is_truthy (user_email payload) \<and> db = None then Inl StoreError
          else Inr \<lparr>results = []\<rparr>)"
    if a: "calls (recipe_search gen service db payload) = [c] \<and>
       (service c = Raises \<or> (\<exists>st. service c = Response st None) \<or>
        (\<exists>st data. service c = Response st (Some data) \<and> (\<forall>d. data \<noteq> JObj d)))"
  proof -
    from a have m: "fst (requested_meals service payload) = and_then (get_json service c) meals_of"
      by (simp add: calls_recipe_search requested_meals_call)
    from a consider "service c = Raises" | st where "service c = Response st None"
      | st data where "service c = Response st (Some data)" "\<forall>d. data \<noteq> JObj d"
      by blast
    then have "\<exists>e. and_then (get_json service c) meals_of = Inl e"
    proof cases
      case 1
      then show ?thesis by (simp add: and_then_def get_json_def)
    next
      case 2
      then show ?thesis by (simp add: and_then_def get_json_def)
    next
      case 3
      then show ?thesis by (cases data) (simp_all add: and_then_def get_json_def)
    qed
    with m have "fst (try_results service payload) = []"
      by (auto simp add: try_results_failed)
    then show ?thesis
      by (simp add: response_recipe_search)
  qed
  have "get_json (\<lambda>c. case service c of Raises \<Rightarrow> Raises | Response st body \<Rightarrow> Response st' body)
          = get_json service"
    by (auto simp add: get_json_def fun_eq_iff split: http_reply.splits option.splits)
  then have status: "recipe_search gen
        (\<lambda>c. case service c of Raises \<Rightarrow> Raises | Response st body \<Rightarrow> Response st' body)
        db payload = recipe_search gen service db payload"
    by (simp add: recipe_search_def try_results_def requested_meals_def)
  from surfaced suppressed status show ?thesis by blast
qed

theorem external_failure_gives_empty_results_witness:
  "calls (recipe_search fixed_id (\<lambda>c. Raises) None (search_for (Some ''chicken'') None))
     = [(search_url, [(''s'', ''chicken'')])]
   \<and> response (recipe_search fixed_id (\<lambda>c. Raises) None (search_for (Some ''chicken'') None))
     = Inr \<lparr>results = []\<rparr>"
proof -
  let ?p = "search_for (Some ''chicken'') None"
  have sent: "calls (recipe_search fixed_id (\<lambda>c. Raises) None ?p)
     = [(search_url, [(''s'', ''chicken'')])]"
    by (simp add: calls_recipe_search requested_meals_def is_truthy_def search_for_def Let_def)
  have anonymous: "\<not> is_truthy (user_email ?p)"
    by (simp add: search_for_def is_truthy_def)
  from external_failure_gives_empty_results
         [of fixed_id "\<lambda>c. Raises" None ?p "(search_url, [(''s'', ''chicken'')])"] sent anonymous
  show ?thesis by simp
qed

text \<open>
  Claim C9. When the reply to the request sent is a JSON object whose \<open>meals\<close> is a list,
  the first twelve entries of it being objects, the results returned are the summaries
  of these entries, in the order of the list: as many as the list has, and twelve when
  it has more. A summary has the five keys \<open>id\<close>, \<open>title\<close>, \<open>thumbnail\<close>, \<open>category\<close> and
  \<open>area\<close>, with the values of \<open>idMeal\<close>, \<open>strMeal\<close>, \<open>strMealThumb\<close>, \<open>strCategory\<close> and
  \<open>strArea\<close>, or \<open>None\<close> for a key the entry does not have. (The handler returns them
  unless \<open>user_email\<close> is present and there is no store to record the search in.)
\<close>

theorem results_are_first_twelve_summaries:
  "calls (recipe_search gen service db payload) = [c] \<Longrightarrow>
   service c = Response st (Some (JObj d)) \<Longrightarrow>
   map_of d ''meals'' = Some (JArr ms) \<Longrightarrow>
   take 12 ms = map JObj fs \<Longrightarrow>
   response (recipe_search gen service db payload) =
     (if is_truthy (user_email payload) \<and> db = None then Inl StoreError
      else Inr \<lparr>results =
        map (\<lambda>f. JObj
          [(''id'', case map_of f ''idMeal'' of None \<Rightarrow> JNull | Some v \<Rightarrow> v),
           (''title'', case map_of f ''strMeal'' of None \<Rightarrow> JNull | Some v \<Rightarrow> v),
           (''thumbnail'', case map_of f ''strMealThumb'' of None \<Rightarrow> JNull | Some v \<Rightarrow> v),
           (''category'', case map_of f ''strCategory'' of None \<Rightarrow> JNull | Some v \<Rightarrow> v),
           (''area'', case map_of f ''strArea'' of None \<Rightarrow> JNull | Some v \<Rightarrow> v)]) fs\<rparr>)
   \<and> length fs = min 12 (length ms)"
proof -
  assume c: "calls (recipe_search gen service db payload) = [c]"
    and s: "service c = Response st (Some (JObj d))"
    and m: "map_of d ''meals'' = Some (JArr ms)"
    and t: "take 12 ms = map JObj fs"
  from c have "fst (requested_meals service payload) = and_then (get_json service c) meals_of"
    by (simp add: calls_recipe_search requested_meals_call)
  with s m have "fst (requested_meals service payload) = Inr (JArr ms)"
    by (simp add: and_then_def get_json_def dict_get_def)
  from try_results_objs [OF this t]
  have "response (recipe_search gen service db payload) =
     (if is_truthy (user_email payload) \<and> db = None then Inl StoreError
      else Inr \<lparr>results = map (\<lambda>f. JObj [(''id'', dict_get f ''idMeal''),
                (''title'', dict_get f ''strMeal''),
                (''thumbnail'', dict_get f ''strMealThumb''),
                (''category'', dict_get f ''strCategory''),
                (''area'', dict_get f ''strArea'')]) fs\<rparr>)"
    by (simp add: response_recipe_search)
  moreover have "length fs = min 12 (length ms)"
    using arg_cong [OF t, of length] by simp
  ultimately show ?thesis by (simp add: dict_get_def)
qed

theorem results_are_first_twelve_summaries_witness:
  "response (recipe_search fixed_id
      (\<lambda>c. Response 200 (Some (JObj [(''meals'',
              JArr (replicate 13 (JObj [(''idMeal'', JStr ''7''), (''strTags'', JNull)])))])))
      None (search_for (Some ''chicken'') None))
   = Inr \<lparr>results = replicate 12
            (JObj [(''id'', JStr ''7''), (''title'', JNull), (''thumbnail'', JNull),
                   (''category'', JNull), (''area'', JNull)])\<rparr>"
proof -
  let ?p = "search_for (Some ''chicken'') None"
  let ?m = "[(''idMeal'', JStr ''7''), (''strTags'', JNull)]"
  let ?service = "\<lambda>c :: http_call. Response 200 (Some (JObj [(''meals'', JArr (replicate 13 (JObj ?m)))]))"
  have sent: "calls (recipe_search fixed_id ?service None ?p) = [(search_url, [(''s'', ''chicken'')])]"
    by (simp add: calls_recipe_search requested_meals_def is_truthy_def search_for_def Let_def)
  have reply: "?service (search_url, [(''s'', ''chicken'')])
     = Response 200 (Some (JObj [(''meals'', JArr (replicate 13 (JObj ?m)))]))"
    by simp
  have meals: "map_of [(''meals'', JArr (replicate 13 (JObj ?m)))] ''meals''
     = Some (JArr (replicate 13 (JObj ?m)))"
    by simp
  have first12: "take 12 (replicate 13 (JObj ?m)) = map JObj (replicate 12 ?m)"
    by simp
  have anonymous: "\<not> is_truthy (user_email ?p)"
    by (simp add: search_for_def is_truthy_def)
  from results_are_first_twelve_summaries [OF sent reply meals first12] anonymous
  show ?thesis by simp
qed

end
